theory Spec2Isabelle
  imports Main "HOL-Library.AList"
begin

section \<open>Dynamic values, strings and numbers\<close>

text \<open>
  The package stores column values, primary keys and ENUM literals as Go values of type
  \<^verbatim>\<open>any\<close>. The model keeps the dynamic types that the code distinguishes: the nil
  interface, booleans, 64-bit integers (what the driver returns for an integer column),
  strings, byte slices (what the driver returns for a text column, turned into a string
  by \<^verbatim>\<open>Fetch\<close>), and any other value, carried with its default rendering.
\<close>

datatype go_value =
    VNil
  | VBool bool
  | VInt64 int
  | VString string
  | VBytes string
  | VOther string

text \<open>Decimal rendering of a natural number, as \<^verbatim>\<open>%d\<close> prints it.\<close>

definition digit_char :: "nat \<Rightarrow> char" where
  "digit_char d = ''0123456789'' ! d"

function digits_of :: "nat \<Rightarrow> string" where
  "digits_of n = (if n < 10 then [digit_char n] else digits_of (n div 10) @ [digit_char (n mod 10)])"
  by pat_completeness auto
termination
  by (relation "measure (\<lambda>n. n)") auto

definition itoa :: "int \<Rightarrow> string" where
  "itoa i = (if i < 0 then CHR ''-'' # digits_of (nat (- i)) else digits_of (nat i))"

text \<open>\<^verbatim>\<open>strings.Join(xs, sep)\<close>.\<close>

fun Join :: "string list \<Rightarrow> string \<Rightarrow> string" where
  "Join [] sep = []"
| "Join [x] sep = x"
| "Join (x # y # ys) sep = x @ sep @ Join (y # ys) sep"

text \<open>\<^verbatim>\<open>fmt.Sprint(v)\<close> and \<^verbatim>\<open>fmt.Sprintf("%v", v)\<close> for a single dynamic value; a byte
  slice prints as the list of its bytes in decimal.\<close>

fun Sprint :: "go_value \<Rightarrow> string" where
  "Sprint VNil = ''<nil>''"
| "Sprint (VBool b) = (if b then ''true'' else ''false'')"
| "Sprint (VInt64 i) = itoa i"
| "Sprint (VString s) = s"
| "Sprint (VBytes s) = ''['' @ Join (map (\<lambda>c. itoa (of_char c)) s) '' '' @ '']''"
| "Sprint (VOther r) = r"

text \<open>
  \<^verbatim>\<open>strconv.Atoi\<close> on a platform whose \<^verbatim>\<open>int\<close> has 64 bits: an optional sign,
  then decimal digits only. A syntax error returns 0, a range error returns the nearest
  bound; both come with an error value.
\<close>

datatype NumError = ErrSyntax | ErrRange

definition digit_val :: "char \<Rightarrow> nat option" where
  "digit_val c = map_of
     [(CHR ''0'', 0), (CHR ''1'', 1), (CHR ''2'', 2), (CHR ''3'', 3), (CHR ''4'', 4),
      (CHR ''5'', 5), (CHR ''6'', 6), (CHR ''7'', 7), (CHR ''8'', 8), (CHR ''9'', 9)] c"

definition is_digit :: "char \<Rightarrow> bool" where
  "is_digit c = (digit_val c \<noteq> None)"

fun decimal :: "nat \<Rightarrow> string \<Rightarrow> nat" where
  "decimal acc [] = acc"
| "decimal acc (c # cs) = decimal (acc * 10 + (case digit_val c of Some d \<Rightarrow> d | None \<Rightarrow> 0)) cs"

definition Atoi :: "string \<Rightarrow> int \<times> NumError option" where
  "Atoi s =
     (let neg = (s \<noteq> [] \<and> hd s = CHR ''-'');
          ds = (if s \<noteq> [] \<and> (hd s = CHR ''-'' \<or> hd s = CHR ''+'') then tl s else s)
      in if ds = [] \<or> \<not> list_all is_digit ds then (0, Some ErrSyntax)
         else let un = int (decimal 0 ds)
              in if \<not> neg \<and> un \<ge> 2 ^ 63 then (2 ^ 63 - 1, Some ErrRange)
                 else if neg \<and> un > 2 ^ 63 then (- (2 ^ 63), Some ErrRange)
                 else (if neg then - un else un, None))"

text \<open>\<^verbatim>\<open>strings.Split(s, sep)[0]\<close> for a one-byte separator: the text before its first
  occurrence, the whole string when it does not occur.\<close>

definition split_head :: "char \<Rightarrow> string \<Rightarrow> string" where
  "split_head sep s = takeWhile (\<lambda>c. c \<noteq> sep) s"

text \<open>\<^verbatim>\<open>strings.HasPrefix(s, p)\<close>.\<close>

definition HasPrefix :: "string \<Rightarrow> string \<Rightarrow> bool" where
  "HasPrefix s p = (take (length p) s = p)"

text \<open>
  The functions of Go's standard library whose results depend on Unicode tables, on the
  floating-point, time and JSON parsers: they are taken as parameters, so every theorem
  below holds whatever they return. \<open>runes\<close> is the decoding that \<^verbatim>\<open>range\<close> performs
  on a string; code points are natural numbers.
\<close>

record golib =
  unicode_IsLetter :: "nat \<Rightarrow> bool"
  unicode_IsDigit :: "nat \<Rightarrow> bool"
  runes :: "string \<Rightarrow> nat list"
  strings_ToUpper :: "string \<Rightarrow> string"
  strings_ToLower :: "string \<Rightarrow> string"
  strings_TrimSpace :: "string \<Rightarrow> string"
  strconv_ParseFloat_ok :: "string \<Rightarrow> bool"
  time_Parse_ok :: "string \<Rightarrow> string \<Rightarrow> bool"
  json_Unmarshal_ok :: "string \<Rightarrow> bool"

text \<open>An instance that agrees with the library on ASCII text, used to run the model on
  concrete inputs. The three parsers are left as constants; no concrete run below reaches
  them.\<close>

definition ascii_upper_char :: "char \<Rightarrow> char" where
  "ascii_upper_char c =
     (case map_of (zip ''abcdefghijklmnopqrstuvwxyz'' ''ABCDEFGHIJKLMNOPQRSTUVWXYZ'') c of
        Some u \<Rightarrow> u | None \<Rightarrow> c)"

definition ascii_lower_char :: "char \<Rightarrow> char" where
  "ascii_lower_char c =
     (case map_of (zip ''ABCDEFGHIJKLMNOPQRSTUVWXYZ'' ''abcdefghijklmnopqrstuvwxyz'') c of
        Some l \<Rightarrow> l | None \<Rightarrow> c)"

definition ascii_is_letter :: "nat \<Rightarrow> bool" where
  "ascii_is_letter r = ((65 \<le> r \<and> r \<le> 90) \<or> (97 \<le> r \<and> r \<le> 122))"

definition ascii_is_digit :: "nat \<Rightarrow> bool" where
  "ascii_is_digit r = (48 \<le> r \<and> r \<le> 57)"

definition ascii_is_space :: "char \<Rightarrow> bool" where
  "ascii_is_space c = (c \<in> set [CHR '' '', CHR 0x09, CHR 0x0A, CHR 0x0B, CHR 0x0C, CHR 0x0D])"

definition ascii_trim :: "string \<Rightarrow> string" where
  "ascii_trim s = rev (dropWhile ascii_is_space (rev (dropWhile ascii_is_space s)))"

definition ascii_lib :: golib where
  "ascii_lib = \<lparr>
     unicode_IsLetter = ascii_is_letter,
     unicode_IsDigit = ascii_is_digit,
     runes = map of_char,
     strings_ToUpper = map ascii_upper_char,
     strings_ToLower = map ascii_lower_char,
     strings_TrimSpace = ascii_trim,
     strconv_ParseFloat_ok = (\<lambda>s. False),
     time_Parse_ok = (\<lambda>layout s. False),
     json_Unmarshal_ok = (\<lambda>s. False) \<rparr>"

section \<open>Result sets\<close>

text \<open>
  \<^verbatim>\<open>Result\<close> is \<^verbatim>\<open>map[string]any\<close> and \<^verbatim>\<open>Results\<close> is \<^verbatim>\<open>map[any]Result\<close>. A Go map
  is modelled as an association list with distinct keys: the list order stands for the
  order in which \<^verbatim>\<open>range\<close> happens to visit the entries, which Go leaves unspecified,
  so a theorem about every list is a theorem about every iteration order. A pointer
  receiver that may be nil is an \<open>option\<close>.
\<close>

type_synonym Result = "(string \<times> go_value) list"
type_synonym Results = "(go_value \<times> Result) list"

text \<open>\<^verbatim>\<open>func (r *Results) IsEmpty() bool { return r != nil && len(*r) > 0 }\<close>\<close>

definition IsEmpty :: "Results option \<Rightarrow> bool" where
  "IsEmpty r = (case r of None \<Rightarrow> False | Some m \<Rightarrow> length m > 0)"

section \<open>Field model and type mapper\<close>

text \<open>The semantic column types (\<^verbatim>\<open>FieldTypes.String\<close>, \<^verbatim>\<open>FieldTypes.Text\<close>, ... of
  ddl.go), in the order of their declaration.\<close>

datatype fieldType =
    FT_String | FT_Text | FT_VarChar | FT_Int | FT_Float | FT_Decimal | FT_Bool | FT_Date
  | FT_Time | FT_Timestamp | FT_JSON | FT_Enum | FT_Binary | FT_UUID | FT_TinyInt
  | FT_SmallInt | FT_MediumInt | FT_BigInt | FT_Double | FT_Real | FT_Char | FT_LongText
  | FT_MediumText | FT_TinyText | FT_Blob | FT_TinyBlob | FT_MediumBlob | FT_LongBlob
  | FT_Set | FT_Year | FT_Geometry | FT_Point | FT_LineString | FT_Polygon

record index =
  PrimaryKey :: bool
  Unique :: bool
  Index :: bool
  FullText :: bool
  Spatial :: bool

record foreignKey =
  referenceTable :: string
  referenceColumn :: string
  onDelete :: string
  onUpdate :: string

text \<open>
  The struct \<^verbatim>\<open>Field\<close>. The source spells its members \<^verbatim>\<open>t, lenth, nullable, ...\<close> in
  one file and \<^verbatim>\<open>Type, Length, Nullable, ...\<close> in the files that read them; the record
  uses the second spelling. \<open>Definition\<close> is a slice, which may be nil (\<open>None\<close>) or
  allocated, possibly with no element; \<open>fk\<close> is a pointer.
\<close>

record Field =
  name :: string
  Type :: fieldType
  Length :: int
  Nullable :: bool
  Definition :: "go_value list option"
  DefaultValue :: string
  AutoIncrement :: bool
  index :: index
  table_name :: string
  fk :: "foreignKey option"

text \<open>\<^verbatim>\<open>func (f fieldType) string() string\<close> of field_types.go: the type mapper.\<close>

fun fieldType_string :: "fieldType \<Rightarrow> string" where
  "fieldType_string FT_String = ''VARCHAR''"
| "fieldType_string FT_VarChar = ''VARCHAR''"
| "fieldType_string FT_Text = ''TEXT''"
| "fieldType_string FT_Int = ''INT''"
| "fieldType_string FT_Float = ''FLOAT''"
| "fieldType_string FT_Decimal = ''DECIMAL(10,2)''"
| "fieldType_string FT_Bool = ''BOOLEAN''"
| "fieldType_string FT_TinyInt = ''TINYINT''"
| "fieldType_string FT_Date = ''DATE''"
| "fieldType_string FT_Time = ''TIME''"
| "fieldType_string FT_Timestamp = ''TIMESTAMP''"
| "fieldType_string FT_JSON = ''JSON''"
| "fieldType_string FT_Enum = ''ENUM''"
| "fieldType_string FT_Binary = ''BLOB''"
| "fieldType_string FT_UUID = ''CHAR(36)''"
| "fieldType_string _ = ''TEXT''"

text \<open>\<^verbatim>\<open>func (ft fieldType) IsNumeric() bool\<close>.\<close>

definition IsNumeric :: "fieldType \<Rightarrow> bool" where
  "IsNumeric ft = (ft \<in> set [FT_Bool, FT_Int, FT_TinyInt, FT_Float, FT_Decimal])"

text \<open>\<^verbatim>\<open>func (ft fieldType) IsValueCompatible(val string) bool\<close>.\<close>

definition IsValueCompatible :: "golib \<Rightarrow> fieldType \<Rightarrow> string \<Rightarrow> bool" where
  "IsValueCompatible L ft val =
     (if ft \<in> set [FT_Int, FT_TinyInt, FT_SmallInt, FT_MediumInt, FT_BigInt] then snd (Atoi val) = None
      else if ft \<in> set [FT_Float, FT_Decimal, FT_Double, FT_Real] then strconv_ParseFloat_ok L val
      else if ft \<in> set [FT_Date, FT_Time] then
        time_Parse_ok L ''2006-01-02'' val \<or> time_Parse_ok L ''2006-01-02 15:04:05'' val
      else if ft = FT_Timestamp then
        time_Parse_ok L ''2006-01-02 15:04:05'' val \<or> val = ''CURRENT_TIMESTAMP'' \<or> val = ''NOW()''
      else if ft = FT_JSON then json_Unmarshal_ok L val
      else if ft \<in> set [FT_VarChar, FT_Text, FT_String, FT_Char] then True
      else if ft = FT_Bool then val = ''0'' \<or> val = ''1'' \<or> val = ''true'' \<or> val = ''false''
      else True)"

text \<open>\<^verbatim>\<open>func isAlphaNumeric(s string) bool\<close>: every rune is a letter or a digit.\<close>

definition isAlphaNumeric :: "golib \<Rightarrow> string \<Rightarrow> bool" where
  "isAlphaNumeric L s = list_all (\<lambda>r. unicode_IsLetter L r \<or> unicode_IsDigit L r) (runes L s)"

text \<open>The table \<^verbatim>\<open>sqlKeywords\<close> of ddl.go.\<close>

definition sqlKeywords :: "string list" where
  "sqlKeywords =
     [''ADD'', ''ALL'', ''ALTER'', ''AND'', ''ANY'',
      ''AS'', ''ASC'', ''BACKUP'', ''BETWEEN'', ''CASE'',
      ''CHECK'', ''COLUMN'', ''CONSTRAINT'', ''CREATE'',
      ''DATABASE'', ''DEFAULT'', ''DELETE'', ''DESC'',
      ''DISTINCT'', ''DROP'', ''EXEC'', ''EXISTS'',
      ''FOREIGN'', ''FROM'', ''FULL'', ''GROUP'', ''HAVING'',
      ''IN'', ''INDEX'', ''INNER'', ''INSERT'', ''INTO'',
      ''IS'', ''JOIN'', ''KEY'', ''LEFT'', ''LIKE'',
      ''LIMIT'', ''NOT'', ''NULL'', ''OR'', ''ORDER'',
      ''OUTER'', ''PRIMARY'', ''PROCEDURE'', ''RIGHT'',
      ''ROWNUM'', ''SELECT'', ''SET'', ''TABLE'', ''TOP'',
      ''TRUNCATE'', ''UNION'', ''UNIQUE'', ''UPDATE'',
      ''VALUES'', ''VIEW'', ''WHERE'', ''WITH'']"

section \<open>Validator\<close>

text \<open>One constructor for each \<^verbatim>\<open>panic\<close> of validate.go that a single field can
  raise, in the order of the source.\<close>

datatype ValidationError =
    EnumWithoutDefinition
  | DefinitionWithoutValues
  | PrimaryAndUnique
  | PrimaryTypeNotAllowed
  | PrimaryNullable
  | PrimaryHasDefault
  | AutoIncrementNotPrimary
  | AutoIncrementNotInteger
  | NameEmpty
  | NameInvalidCharacters
  | NameMustStartWithLetter
  | NameReservedKeyword
  | TinyIntLength
  | BooleanLength
  | SmallIntLength
  | MediumIntLength
  | IntegerLengthNotPositive
  | CharLengthNotPositive
  | DecimalLengthNotPositive
  | TypeShouldNotHaveLength
  | AutoIncrementNotNumeric
  | PrimaryKeyNullable
  | IndexOnTextBlob
  | DefaultNotCompatible

text \<open>The type and length \<^verbatim>\<open>switch\<close> of \<^verbatim>\<open>Validate\<close>.\<close>

definition check_length :: "Field \<Rightarrow> ValidationError option" where
  "check_length f =
     (if Type f = FT_TinyInt then (if Length f < 3 then Some TinyIntLength else None)
      else if Type f = FT_Bool then (if Length f < 0 \<or> Length f > 1 then Some BooleanLength else None)
      else if Type f = FT_SmallInt then (if Length f < 5 then Some SmallIntLength else None)
      else if Type f = FT_MediumInt then (if Length f < 6 then Some MediumIntLength else None)
      else if Type f \<in> set [FT_Int, FT_BigInt] then
        (if Length f < 1 then Some IntegerLengthNotPositive else None)
      else if Type f \<in> set [FT_VarChar, FT_Char] then
        (if Length f < 1 then Some CharLengthNotPositive else None)
      else if Type f = FT_Decimal then
        (if Length f < 1 then Some DecimalLengthNotPositive else None)
      else if Type f \<in> set [FT_Text, FT_Blob, FT_JSON, FT_Date, FT_Time, FT_Timestamp] then
        (if Length f > 0 then Some TypeShouldNotHaveLength else None)
      else None)"

text \<open>\<^verbatim>\<open>func (f Field) Validate()\<close>: \<open>None\<close> when it returns, \<open>Some e\<close> when it panics.
  \<^verbatim>\<open>f.name[0]\<close> is the first byte of the name, converted to a rune.\<close>

definition Validate :: "golib \<Rightarrow> Field \<Rightarrow> ValidationError option" where
  "Validate L f =
     (if name f = [] then Some NameEmpty
      else if \<not> isAlphaNumeric L (name f) then Some NameInvalidCharacters
      else if \<not> unicode_IsLetter L (of_char (hd (name f))) then Some NameMustStartWithLetter
      else if strings_ToUpper L (name f) \<in> set sqlKeywords then Some NameReservedKeyword
      else if check_length f \<noteq> None then check_length f
      else if AutoIncrement f \<and> \<not> IsNumeric (Type f) then Some AutoIncrementNotNumeric
      else if PrimaryKey (index f) \<and> Nullable f then Some PrimaryKeyNullable
      else if (Unique (index f) \<or> Index (index f)) \<and> (Type f = FT_Text \<or> Type f = FT_Blob)
        then Some IndexOnTextBlob
      else if DefaultValue f \<noteq> [] \<and> \<not> IsValueCompatible L (Type f) (DefaultValue f)
        then Some DefaultNotCompatible
      else None)"

text \<open>
  The checks that \<^verbatim>\<open>validate\<close> runs for one field of a table, after the duplicate-name
  check, which concerns the other fields: the body of the function it starts for that
  field, ending in the call of \<^verbatim>\<open>f.Validate()\<close>. This is the validation a field
  undergoes at registration.
\<close>

definition validate_field :: "golib \<Rightarrow> Field \<Rightarrow> ValidationError option" where
  "validate_field L f =
     (if Type f = FT_Enum \<and> Definition f = None then Some EnumWithoutDefinition
      else if Definition f = Some [] then Some DefinitionWithoutValues
      else if PrimaryKey (index f) \<and> Unique (index f) then Some PrimaryAndUnique
      else if PrimaryKey (index f) \<and> Type f \<noteq> FT_Int \<and> Type f \<noteq> FT_VarChar
        then Some PrimaryTypeNotAllowed
      else if PrimaryKey (index f) \<and> Nullable f then Some PrimaryNullable
      else if PrimaryKey (index f) \<and> DefaultValue f \<noteq> [] then Some PrimaryHasDefault
      else if AutoIncrement f \<and> \<not> PrimaryKey (index f) then Some AutoIncrementNotPrimary
      else if AutoIncrement f \<and>
              \<not> HasPrefix (strings_ToLower L (fieldType_string (Type f))) ''int''
        then Some AutoIncrementNotInteger
      else Validate L f)"

text \<open>
  The invariants that the specification lists for a field, in its words: a nullable
  primary key, primary and unique both set, auto-increment on a non-numeric type, an enum
  with an empty literal list, a text field with an index flag (the unique or the index
  flag), a varchar with length 0. This predicate is written from the specification, to
  be compared with \<open>validate_field\<close>.
\<close>

definition violates_listed_invariant :: "Field \<Rightarrow> bool" where
  "violates_listed_invariant f =
     ((PrimaryKey (index f) \<and> Nullable f) \<or>
      (PrimaryKey (index f) \<and> Unique (index f)) \<or>
      (AutoIncrement f \<and> \<not> IsNumeric (Type f)) \<or>
      (Type f = FT_Enum \<and> (Definition f = None \<or> Definition f = Some [])) \<or>
      (Type f = FT_Text \<and> (Unique (index f) \<or> Index (index f))) \<or>
      (Type f = FT_VarChar \<and> Length f = 0))"

text \<open>The example field of the specification: an auto-increment, non-nullable primary
  key of type INT named \<^verbatim>\<open>id\<close>, with the length given.\<close>

definition id_field :: "int \<Rightarrow> Field" where
  "id_field len = \<lparr>name = ''id'', Type = FT_Int, Length = len, Nullable = False,
     Definition = None, DefaultValue = [], AutoIncrement = True,
     index = \<lparr>PrimaryKey = True, Unique = False, Index = False, FullText = False, Spatial = False\<rparr>,
     table_name = ''users'', fk = None\<rparr>"

section \<open>Comparing a declared field with a live column type\<close>

text \<open>The literal list that \<^verbatim>\<open>Compare\<close> rebuilds for an ENUM column.\<close>

definition enum_rendering :: "golib \<Rightarrow> Field \<Rightarrow> string" where
  "enum_rendering L f =
     ''ENUM('' @ Join (map (\<lambda>v. [CHR 0x27] @ strings_ToUpper L (Sprint v @ [CHR 0x27]))
                       (case Definition f of None \<Rightarrow> [] | Some vs \<Rightarrow> vs)) '','' @ '')''"

text \<open>\<^verbatim>\<open>func (f *Field) Compare(fieldTypeStr string) bool\<close>: the outer \<^verbatim>\<open>switch\<close> on the
  text before the first parenthesis, each case with its inner \<^verbatim>\<open>switch\<close> on the field's
  type; a case whose inner switch matches nothing falls to the final \<^verbatim>\<open>return false\<close>.\<close>

definition Compare :: "golib \<Rightarrow> Field \<Rightarrow> string \<Rightarrow> bool" where
  "Compare L f fieldTypeStr =
     (let ty = split_head CHR ''('' fieldTypeStr in
      if ty = ''TINYINT'' then Type f \<in> set [FT_TinyInt, FT_Bool]
      else if ty = ''SMALLINT'' then Type f = FT_SmallInt
      else if ty = ''MEDIUMINT'' then Type f = FT_MediumInt
      else if ty = ''INT'' \<or> ty = ''INTEGER'' then Type f = FT_Int
      else if ty = ''BIGINT'' then Type f = FT_BigInt
      else if ty = ''VARCHAR'' then Type f \<in> set [FT_VarChar, FT_String]
      else if ty = ''CHAR'' then Type f \<in> set [FT_Char, FT_String]
      else if ty = ''TEXT'' then Type f \<in> set [FT_Text, FT_String]
      else if ty = ''LONGTEXT'' then Type f \<in> set [FT_LongText, FT_JSON]
      else if ty = ''BOOL'' \<or> ty = ''BOOLEAN'' then Type f \<in> set [FT_Bool, FT_TinyInt]
      else if ty = ''DECIMAL'' then Type f = FT_Decimal
      else if ty = ''FLOAT'' then Type f = FT_Float
      else if ty = ''DOUBLE'' \<or> ty = ''REAL'' then Type f \<in> set [FT_Double, FT_Real]
      else if ty = ''JSON'' then Type f = FT_JSON
      else if ty = ''BLOB'' then Type f = FT_Blob
      else if ty = ''DATE'' then Type f = FT_Date
      else if ty = ''TIME'' then Type f = FT_Time
      else if ty = ''TIMESTAMP'' then Type f = FT_Timestamp
      else if ty = ''ENUM'' then fieldTypeStr = enum_rendering L f
      else if ty = ''UUID'' then Type f = FT_UUID
      else False)"

section \<open>Live schema snapshot\<close>

text \<open>\<^verbatim>\<open>sql.NullString\<close> and the struct \<^verbatim>\<open>schema\<close> of type.go.\<close>

record NullString =
  String :: string
  Valid :: bool

record schema =
  field :: string
  fieldType :: string
  nullable :: string
  key :: string
  extra :: string
  defaultVal :: NullString
  isunique :: bool
  isindex :: bool
  isprimary :: bool

text \<open>
  The table metadata \<^verbatim>\<open>meta\<close> of models.go, without its database handle: the
  database is outside the program and is passed to each operation as the environment it
  runs in. \<open>FieldTypes\<close> holds the values of the map of declared fields, \<open>components\<close> the
  in-memory component set; both in an iteration order.
\<close>

type_synonym component = "(string \<times> go_value) list"
type_synonym components = "(string \<times> component) list"

record meta =
  components :: components
  TableName :: string
  FieldTypes :: "Field list"
  schemas :: "schema list"
  primary :: "Field option"

text \<open>The regular expression \<^verbatim>\<open>^([A-Z]+)\((\d+)\)$\<close> of \<^verbatim>\<open>parseSQLType\<close>: capital ASCII
  letters, then decimal digits in parentheses, and nothing else. The result holds the
  two groups.\<close>

definition is_upper :: "char \<Rightarrow> bool" where
  "is_upper c = (c \<in> set ''ABCDEFGHIJKLMNOPQRSTUVWXYZ'')"

definition match_type_length :: "string \<Rightarrow> (string \<times> string) option" where
  "match_type_length s =
     (let base = takeWhile is_upper s; rest = dropWhile is_upper s
      in if base \<noteq> [] \<and> 3 \<le> length rest \<and> hd rest = CHR ''('' \<and> last rest = CHR '')'' \<and>
            list_all is_digit (butlast (tl rest))
         then Some (base, butlast (tl rest)) else None)"

text \<open>\<^verbatim>\<open>func (sc *schema) parseSQLType() (string, int)\<close>; the error of \<^verbatim>\<open>Atoi\<close> is
  dropped, as in the source.\<close>

definition parseSQLType :: "golib \<Rightarrow> schema \<Rightarrow> string \<times> int" where
  "parseSQLType L sc =
     (let sqlType = strings_ToUpper L (strings_TrimSpace L (fieldType sc))
      in case match_type_length sqlType of
           Some (base, len) \<Rightarrow> (base, fst (Atoi len))
         | None \<Rightarrow> (sqlType, 0))"

section \<open>Schema introspection\<close>

text \<open>
  What the database answers to the queries of \<^verbatim>\<open>syncModelSchema\<close>: whether the ping
  succeeds, the count of the catalog query, the rows of SHOW COLUMNS, the name of the
  current database, and the index rows of each column. \<open>None\<close> is a failed query, and a
  row that is \<open>None\<close> is one whose \<^verbatim>\<open>Scan\<close> fails.
\<close>

type_synonym column_row = "string \<times> string \<times> string \<times> string \<times> NullString \<times> string"
type_synonym index_row = "string \<times> string \<times> int"

record catalog =
  ping_ok :: bool
  table_count :: "int option"
  show_columns :: "column_row option list option"
  database_name :: "string option"
  index_rows :: "string \<Rightarrow> index_row option list option"

datatype outcome = Completed | Panicked

text \<open>The inner loop: every index row of one column sets a flag of the snapshot.\<close>

fun classify_indexes :: "index_row option list \<Rightarrow> schema \<Rightarrow> outcome \<times> schema" where
  "classify_indexes [] sc = (Completed, sc)"
| "classify_indexes (None # rest) sc = (Panicked, sc)"
| "classify_indexes (Some (columnName, indexName, nonUnique) # rest) sc =
     classify_indexes rest
       (if indexName = ''PRIMARY'' then sc\<lparr>isprimary := True\<rparr>
        else if split_head CHR ''_'' indexName = ''idx'' then sc\<lparr>isindex := True\<rparr>
        else if split_head CHR ''_'' indexName = ''unq'' then sc\<lparr>isunique := True\<rparr>
        else sc)"

text \<open>The outer loop over the rows of SHOW COLUMNS, appending to \<^verbatim>\<open>m.schemas\<close>.\<close>

fun scan_columns :: "catalog \<Rightarrow> column_row option list \<Rightarrow> meta \<Rightarrow> outcome \<times> meta" where
  "scan_columns cat [] m = (Completed, m)"
| "scan_columns cat (None # rest) m = (Panicked, m)"
| "scan_columns cat (Some (f, ty, nl, k, dv, ex) # rest) m =
     (let sc = \<lparr>field = f, fieldType = ty, nullable = nl, key = k, extra = ex, defaultVal = dv,
                 isunique = False, isindex = False, isprimary = False\<rparr>
      in case index_rows cat f of
           None \<Rightarrow> (Panicked, m)
         | Some idxRows \<Rightarrow>
             (case classify_indexes idxRows sc of
                (Panicked, sc') \<Rightarrow> (Panicked, m)
              | (Completed, sc') \<Rightarrow> scan_columns cat rest (m\<lparr>schemas := schemas m @ [sc']\<rparr>)))"

text \<open>\<^verbatim>\<open>func (m *meta) syncModelSchema()\<close>. It returns nothing; the result is whether it
  ran to its end or panicked, and the metadata it leaves.\<close>

definition syncModelSchema :: "catalog \<Rightarrow> meta \<Rightarrow> outcome \<times> meta" where
  "syncModelSchema cat m =
     (if \<not> ping_ok cat then (Panicked, m)
      else case table_count cat of
        None \<Rightarrow> (Panicked, m)
      | Some count \<Rightarrow>
          if count = 0 then (Completed, m)
          else (case show_columns cat of
            None \<Rightarrow> (Panicked, m)
          | Some rows \<Rightarrow>
              (case database_name cat of
                 None \<Rightarrow> (Panicked, m\<lparr>schemas := []\<rparr>)
               | Some dbName \<Rightarrow> scan_columns cat rows (m\<lparr>schemas := []\<rparr>))))"

section \<open>Schema reconciliation\<close>

text \<open>The reasons that \<^verbatim>\<open>syncTableSchema\<close> collects for changing a column; the source
  formats them as text, with the values kept here as arguments.\<close>

datatype reason =
    TypeMismatch string string
  | LengthMismatch int int
  | DefaultMismatch
  | NullableMismatch
  | AutoIncrementMismatch

text \<open>The drift checks on a declared field and its live column. The flag
  \<^verbatim>\<open>shouldChange\<close> is set exactly where a reason is appended, so it holds iff the list
  is not empty.\<close>

definition drift_reasons :: "golib \<Rightarrow> Field \<Rightarrow> schema \<Rightarrow> reason list" where
  "drift_reasons L fld sc =
     (let filed_type = fst (parseSQLType L sc); field_length = snd (parseSQLType L sc)
      in (if \<not> Compare L fld filed_type
            then [TypeMismatch filed_type (fieldType_string (Type fld))] else []) @
         (if \<not> (field_length = 1 \<and> Length fld = 0) \<and> field_length \<noteq> Length fld
            then [LengthMismatch field_length (Length fld)] else []) @
         (if String (defaultVal sc) \<noteq> DefaultValue fld \<and> Type fld \<noteq> FT_Timestamp
            then [DefaultMismatch] else []) @
         (if (nullable sc = ''YES'' \<and> \<not> Nullable fld) \<or> (nullable sc = ''NO'' \<and> Nullable fld)
            then [NullableMismatch] else []) @
         (if (extra sc = ''auto_increment'' \<and> \<not> AutoIncrement fld) \<or>
             (extra sc = [] \<and> AutoIncrement fld)
            then [AutoIncrementMismatch] else []))"

text \<open>
  The DDL statements of ddl.go and models.go, each with the data its text is built from,
  and the database as the reconciler sees it: the ping succeeds or not, and a statement
  is accepted or rejected.
\<close>

datatype ddl =
    AddColumn Field
  | ChangeColumn Field
  | DropColumn string
  | DropPrimaryKey
  | AddPrimaryKey string
  | DropIndex string
  | AddUnique string string
  | AddIndex string string

fun is_AddColumn :: "ddl \<Rightarrow> bool" where
  "is_AddColumn (AddColumn f) = True"
| "is_AddColumn _ = False"

record conn =
  conn_ping_ok :: bool
  rejects :: "ddl \<Rightarrow> bool"

text \<open>\<^verbatim>\<open>addField\<close>, \<^verbatim>\<open>modifyDBField\<close> and \<^verbatim>\<open>removeDBField\<close> panic when the ping or the
  statement fails. The result is the outcome and the statements sent.\<close>

definition exec_or_panic :: "conn \<Rightarrow> ddl \<Rightarrow> outcome \<times> ddl list" where
  "exec_or_panic c d =
     (if \<not> conn_ping_ok c then (Panicked, [])
      else if rejects c d then (Panicked, [d]) else (Completed, [d]))"

definition addField :: "conn \<Rightarrow> Field \<Rightarrow> outcome \<times> ddl list" where
  "addField c fld = exec_or_panic c (AddColumn fld)"

definition modifyDBField :: "conn \<Rightarrow> Field \<Rightarrow> outcome \<times> ddl list" where
  "modifyDBField c fld = exec_or_panic c (ChangeColumn fld)"

definition removeDBField :: "conn \<Rightarrow> string \<Rightarrow> outcome \<times> ddl list" where
  "removeDBField c fieldName = exec_or_panic c (DropColumn fieldName)"

text \<open>The three index helpers print an error and go on; they never panic.\<close>

definition syncPrimaryKey :: "conn \<Rightarrow> Field \<Rightarrow> schema \<Rightarrow> ddl list" where
  "syncPrimaryKey c fld sc =
     (if \<not> conn_ping_ok c then []
      else (if isprimary sc \<and> \<not> PrimaryKey (index fld) then [DropPrimaryKey] else []) @
           (if \<not> isprimary sc \<and> PrimaryKey (index fld) then [AddPrimaryKey (name fld)] else []))"

definition syncUniqueIndex :: "conn \<Rightarrow> Field \<Rightarrow> schema \<Rightarrow> ddl list" where
  "syncUniqueIndex c fld sc =
     (if \<not> conn_ping_ok c then []
      else (if isunique sc \<and> \<not> Unique (index fld) then [DropIndex (''unq_'' @ name fld)] else []) @
           (if \<not> isunique sc \<and> Unique (index fld)
              then [AddUnique (''unq_'' @ name fld) (name fld)] else []))"

definition syncIndex :: "conn \<Rightarrow> Field \<Rightarrow> schema \<Rightarrow> ddl list" where
  "syncIndex c fld sc =
     (if \<not> conn_ping_ok c then []
      else (if isindex sc \<and> \<not> Index (index fld) then [DropIndex (''idx_'' @ name fld)] else []) @
           (if \<not> isindex sc \<and> Index (index fld)
              then [AddIndex (''idx_'' @ name fld) (name fld)] else []))"

text \<open>\<^verbatim>\<open>reader.ReadString('\n')\<close> on the unread input: the line with its newline, or
  what is left and an error at the end of the input.\<close>

definition ReadString :: "string \<Rightarrow> (string \<times> bool) \<times> string" where
  "ReadString inp =
     (if CHR 0x0A \<in> set inp
      then ((takeWhile (\<lambda>c. c \<noteq> CHR 0x0A) inp @ [CHR 0x0A], False),
            tl (dropWhile (\<lambda>c. c \<noteq> CHR 0x0A) inp))
      else ((inp, True), []))"

text \<open>A prompt whose answer is read with the error dropped: yes iff the trimmed line is
  \<^verbatim>\<open>y\<close>. The result is the answer and the input left.\<close>

definition confirm :: "golib \<Rightarrow> string \<Rightarrow> bool \<times> string" where
  "confirm L inp = (strings_TrimSpace L (fst (fst (ReadString inp))) = ''y'', snd (ReadString inp))"

text \<open>The body of the first loop for a field whose column exists: the drift checks and
  the optional modification, then the three index checks.\<close>

definition sync_existing :: "golib \<Rightarrow> conn \<Rightarrow> Field \<Rightarrow> schema \<Rightarrow> string \<Rightarrow> outcome \<times> ddl list \<times> string" where
  "sync_existing L c fld sc inp =
     (let modify = (if drift_reasons L fld sc \<noteq> [] \<and> fst (confirm L inp)
                    then modifyDBField c fld else (Completed, []));
          inp1 = (if drift_reasons L fld sc \<noteq> [] then snd (confirm L inp) else inp)
      in if fst modify = Panicked then (Panicked, snd modify, inp1)
         else
           let uniq = (if isunique sc \<noteq> Unique (index fld) \<and> fst (confirm L inp1)
                       then syncUniqueIndex c fld sc else []);
               inp2 = (if isunique sc \<noteq> Unique (index fld) then snd (confirm L inp1) else inp1);
               prim = (if isprimary sc \<noteq> PrimaryKey (index fld) \<and> fst (confirm L inp2)
                       then syncPrimaryKey c fld sc else []);
               inp3 = (if isprimary sc \<noteq> PrimaryKey (index fld) then snd (confirm L inp2) else inp2);
               indx = (if isindex sc \<noteq> Index (index fld) \<and> fst (confirm L inp3)
                       then syncIndex c fld sc else []);
               inp4 = (if isindex sc \<noteq> Index (index fld) then snd (confirm L inp3) else inp3)
           in (Completed, snd modify @ uniq @ prim @ indx, inp4))"

text \<open>The first loop of \<^verbatim>\<open>syncTableSchema\<close>, over the declared fields: a field without
  a live column is queued in \<open>pendingAddFields\<close> when the operator agrees; the others are
  compared and patched. The lookup table \<open>schemaMap\<close> is a parameter.\<close>

fun syncFields ::
  "golib \<Rightarrow> conn \<Rightarrow> (string \<rightharpoonup> schema) \<Rightarrow> Field list \<Rightarrow> string \<Rightarrow> Field list
     \<Rightarrow> outcome \<times> ddl list \<times> string \<times> Field list" where
  "syncFields L c schemaMap [] inp pendingAddFields = (Completed, [], inp, pendingAddFields)"
| "syncFields L c schemaMap (fld # rest) inp pendingAddFields =
     (case schemaMap (name fld) of
        None \<Rightarrow>
          syncFields L c schemaMap rest (snd (confirm L inp))
            (if fst (confirm L inp) then pendingAddFields @ [fld] else pendingAddFields)
      | Some sc \<Rightarrow>
          (case sync_existing L c fld sc inp of
             (Panicked, ds, inp1) \<Rightarrow> (Panicked, ds, inp1, pendingAddFields)
           | (Completed, ds, inp1) \<Rightarrow>
               (case syncFields L c schemaMap rest inp1 pendingAddFields of
                  (oc, ds2, inp2, pend) \<Rightarrow> (oc, ds @ ds2, inp2, pend))))"

text \<open>The second loop, over the live columns: a column without a declared field is
  dropped when the read succeeds and the operator agrees.\<close>

fun removeStaleFields ::
  "golib \<Rightarrow> conn \<Rightarrow> Field list \<Rightarrow> schema list \<Rightarrow> string \<Rightarrow> outcome \<times> ddl list \<times> string" where
  "removeStaleFields L c flds [] inp = (Completed, [], inp)"
| "removeStaleFields L c flds (sc # rest) inp =
     (if field sc \<in> set (map name flds) then removeStaleFields L c flds rest inp
      else if \<not> snd (fst (ReadString inp)) \<and> fst (confirm L inp) then
        (case removeDBField c (field sc) of
           (Panicked, ds) \<Rightarrow> (Panicked, ds, snd (ReadString inp))
         | (Completed, ds) \<Rightarrow>
             (case removeStaleFields L c flds rest (snd (ReadString inp)) of
                (oc, ds2, inp2) \<Rightarrow> (oc, ds @ ds2, inp2)))
      else removeStaleFields L c flds rest (snd (ReadString inp)))"

text \<open>The last loop: the queued additions.\<close>

fun addPendingFields :: "conn \<Rightarrow> Field list \<Rightarrow> outcome \<times> ddl list" where
  "addPendingFields c [] = (Completed, [])"
| "addPendingFields c (fld # rest) =
     (case addField c fld of
        (Panicked, ds) \<Rightarrow> (Panicked, ds)
      | (Completed, ds) \<Rightarrow>
          (case addPendingFields c rest of (oc, ds2) \<Rightarrow> (oc, ds @ ds2)))"

text \<open>\<^verbatim>\<open>func (m *meta) syncTableSchema()\<close>: the outcome, the statements sent to the
  database in the order they were sent, and the input left. In \<open>schemaMap\<close> a later
  snapshot of the same column replaces an earlier one.\<close>

definition syncTableSchema :: "golib \<Rightarrow> conn \<Rightarrow> meta \<Rightarrow> string \<Rightarrow> outcome \<times> ddl list \<times> string" where
  "syncTableSchema L c m inp =
     (let schemaMap = map_of (rev (map (\<lambda>s. (field s, s)) (schemas m)))
      in case syncFields L c schemaMap (FieldTypes m) inp [] of
           (Panicked, ds, inp1, pend) \<Rightarrow> (Panicked, ds, inp1)
         | (Completed, ds, inp1, pend) \<Rightarrow>
             (case removeStaleFields L c (FieldTypes m) (schemas m) inp1 of
                (Panicked, ds2, inp2) \<Rightarrow> (Panicked, ds @ ds2, inp2)
              | (Completed, ds2, inp2) \<Rightarrow>
                  (case addPendingFields c pend of (oc, ds3) \<Rightarrow> (oc, ds @ ds2 @ ds3, inp2))))"

section \<open>Component cache\<close>

text \<open>
  What lies outside the program when the component functions run: the table in the
  database, the JSON file of the table, and the operator's console. The table is a list
  of rows, each with the values the driver returns for its columns; the server is
  reachable or not, and a reachable server carries out every statement it receives and
  records it in \<open>log\<close>. The file is absent (\<open>None\<close>) or holds a component set, and can be
  written or not. \<open>scans\<close> holds what the coming calls of \<^verbatim>\<open>fmt.Scanln(&input)\<close> will
  store in \<^verbatim>\<open>input\<close>; when it is used up, a call stores nothing and the variable keeps
  its empty string. \<open>prompts\<close> counts the conflict prompts printed.
\<close>

datatype stmt =
    Insert Result
  | DeleteWhere string go_value
  | UpdateWhere "(string \<times> go_value) list" string go_value

fun is_Insert :: "stmt \<Rightarrow> bool" where
  "is_Insert (Insert r) = True"
| "is_Insert _ = False"

record env =
  reachable :: bool
  rows :: "Result list"
  log :: "stmt list"
  json_file :: "components option"
  writable :: bool
  scans :: "string list"
  prompts :: nat

datatype error =
    ErrPing
  | ErrFetch error
  | ErrAtoi NumError
  | ErrNoFieldsToInsert
  | ErrNoFieldsToUpdate
  | ErrNotFound
  | ErrWriteFile

datatype panic = PanicNoPrimaryKey | PanicInsertFailed error | PanicNilPointer

datatype 'a result = Returned 'a | Panic panic

text \<open>The conversion of \<^verbatim>\<open>Fetch\<close>: a byte slice becomes a string. The server compares a
  stored value with an argument up to this conversion.\<close>

fun bytes_to_string :: "go_value \<Rightarrow> go_value" where
  "bytes_to_string (VBytes b) = VString b"
| "bytes_to_string v = v"

text \<open>\<^verbatim>\<open>row[col]\<close> on a map to \<^verbatim>\<open>any\<close>: the nil interface when the key is missing.\<close>

definition column :: "Result \<Rightarrow> string \<Rightarrow> go_value" where
  "column row col = (case map_of row col of None \<Rightarrow> VNil | Some v \<Rightarrow> v)"

definition matches :: "string \<Rightarrow> go_value \<Rightarrow> Result \<Rightarrow> bool" where
  "matches col v row = (bytes_to_string (column row col) = bytes_to_string v)"

text \<open>\<^verbatim>\<open>func (m *meta) HasPrimaryKey() bool\<close>: the cached pointer, or the first field with
  the primary flag, which it caches.\<close>

definition HasPrimaryKey :: "meta \<Rightarrow> bool \<times> meta" where
  "HasPrimaryKey m =
     (case primary m of
        Some p \<Rightarrow> (True, m)
      | None \<Rightarrow>
          (case find (\<lambda>f. PrimaryKey (index f)) (FieldTypes m) of
             Some f \<Rightarrow> (True, m\<lparr>primary := Some f\<rparr>)
           | None \<Rightarrow> (False, m)))"

text \<open>The loop of \<^verbatim>\<open>Fetch\<close> over the rows: each row, converted, is stored under the
  value of its primary-key column.\<close>

definition collect_rows :: "string \<Rightarrow> Result list \<Rightarrow> Results" where
  "collect_rows pk rs =
     fold (\<lambda>r results.
             AList.update (column (map (\<lambda>(c, v). (c, bytes_to_string v)) r) pk)
               (map (\<lambda>(c, v). (c, bytes_to_string v)) r) results)
          rs []"

text \<open>\<^verbatim>\<open>m.Get().Fetch()\<close>, the query without conditions: an error when the ping fails; a
  panic of \<^verbatim>\<open>GetPrimaryKey\<close> when there is a row and the table has no primary key.\<close>

definition Fetch :: "meta \<Rightarrow> env \<Rightarrow> (error + Results) result \<times> meta" where
  "Fetch m e =
     (if \<not> reachable e then (Returned (Inl ErrPing), m)
      else if rows e = [] then (Returned (Inr []), m)
      else case HasPrimaryKey m of
             (False, m1) \<Rightarrow> (Panic PanicNoPrimaryKey, m1)
           | (True, m1) \<Rightarrow>
               (case primary m1 of
                  None \<Rightarrow> (Panic PanicNoPrimaryKey, m1)
                | Some p \<Rightarrow> (Returned (Inr (collect_rows (name p) (rows e))), m1)))"

text \<open>\<^verbatim>\<open>func (m *meta) InsertRow(values map[string]any) error\<close>.\<close>

definition InsertRow :: "env \<Rightarrow> Result \<Rightarrow> error option \<times> env" where
  "InsertRow e vals =
     (if \<not> reachable e then (Some ErrPing, e)
      else if vals = [] then (Some ErrNoFieldsToInsert, e)
      else (None, e\<lparr>rows := rows e @ [vals], log := log e @ [Insert vals]\<rparr>))"

text \<open>\<^verbatim>\<open>m.Delete().Where(f).Is(k).Exec()\<close> for a field named \<open>col\<close>.\<close>

definition DeleteWhereIs :: "env \<Rightarrow> string \<Rightarrow> go_value \<Rightarrow> error option \<times> env" where
  "DeleteWhereIs e col k =
     (if \<not> reachable e then (Some ErrPing, e)
      else (None, e\<lparr>rows := filter (\<lambda>r. \<not> matches col k r) (rows e),
                     log := log e @ [DeleteWhere col k]\<rparr>))"

text \<open>\<^verbatim>\<open>m.Update(nil).Where(f).Is(k)\<close>, then one \<^verbatim>\<open>SetWithFieldName(c).To(v)\<close> for each
  pair of \<open>sets\<close>, then \<^verbatim>\<open>Exec()\<close>.\<close>

definition UpdateSetWhereIs ::
  "env \<Rightarrow> (string \<times> go_value) list \<Rightarrow> string \<Rightarrow> go_value \<Rightarrow> error option \<times> env" where
  "UpdateSetWhereIs e sets col k =
     (if \<not> reachable e then (Some ErrPing, e)
      else if sets = [] then (Some ErrNoFieldsToUpdate, e)
      else (None, e\<lparr>rows := map (\<lambda>r. if matches col k r
                                        then fold (\<lambda>(c, v) r'. AList.update c v r') sets r else r)
                                 (rows e),
                     log := log e @ [UpdateWhere sets col k]\<rparr>))"

text \<open>\<^verbatim>\<open>func (m *meta) saveComponentToDisk() error\<close>.\<close>

definition saveComponentToDisk :: "meta \<Rightarrow> env \<Rightarrow> error option \<times> env" where
  "saveComponentToDisk m e =
     (if writable e then (None, e\<lparr>json_file := Some (components m)\<rparr>) else (Some ErrWriteFile, e))"

text \<open>The branch of \<^verbatim>\<open>SyncComponentWithDB\<close> for an empty database: every local item is
  inserted, a failure is printed and the loop goes on.\<close>

fun insert_all :: "components \<Rightarrow> env \<Rightarrow> env" where
  "insert_all [] e = e"
| "insert_all ((k, localItem) # rest) e = insert_all rest (snd (InsertRow e localItem))"

text \<open>
  The loop "Add missing". For an integer primary key the local key is parsed and looked
  up as a 64-bit integer; otherwise it is looked up as a string. A missing item is
  inserted and stored in \<open>dbResults\<close> under the string key. The first component of the
  result is \<open>Some\<close> when the loop leaves the function: the error of \<^verbatim>\<open>Atoi\<close> returned, or
  the panic after a failed insertion.
\<close>

fun add_missing ::
  "fieldType \<Rightarrow> components \<Rightarrow> Results \<Rightarrow> env \<Rightarrow> error option result option \<times> Results \<times> env" where
  "add_missing pt [] dbResults e = (None, dbResults, e)"
| "add_missing pt ((k, v) # rest) dbResults e =
     (if pt = FT_Int then
        (case snd (Atoi k) of
           Some err \<Rightarrow> (Some (Returned (Some (ErrAtoi err))), dbResults, e)
         | None \<Rightarrow>
             if map_of dbResults (VInt64 (fst (Atoi k))) = None then
               (case InsertRow e v of
                  (Some err, e1) \<Rightarrow> (Some (Panic (PanicInsertFailed err)), dbResults, e1)
                | (None, e1) \<Rightarrow> add_missing pt rest (AList.update (VString k) v dbResults) e1)
             else add_missing pt rest dbResults e)
      else
        if map_of dbResults (VString k) = None then
          (case InsertRow e v of
             (Some err, e1) \<Rightarrow> (Some (Panic (PanicInsertFailed err)), dbResults, e1)
           | (None, e1) \<Rightarrow> add_missing pt rest (AList.update (VString k) v dbResults) e1)
        else add_missing pt rest dbResults e)"

text \<open>The loop "Remove stale" over the keys of \<open>dbResults\<close>; the error of the deletion
  is dropped.\<close>

fun remove_stale :: "string \<Rightarrow> components \<Rightarrow> go_value list \<Rightarrow> env \<Rightarrow> env" where
  "remove_stale col comps [] e = e"
| "remove_stale col comps (k # ks) e =
     (if map_of comps (Sprint k) = None
      then remove_stale col comps ks (snd (DeleteWhereIs e col k))
      else remove_stale col comps ks e)"

text \<open>The loop that builds \<open>updated\<close> from \<open>dbResults\<close>, also used by the refresh.\<close>

definition rebuild :: "Results \<Rightarrow> components" where
  "rebuild dbResults = fold (\<lambda>(k, v) updated. AList.update (Sprint k) v updated) dbResults []"

text \<open>\<^verbatim>\<open>func (m *meta) SyncComponentWithDB() error\<close>: the error returned or the panic,
  and the metadata and the environment it leaves.\<close>

definition SyncComponentWithDB :: "meta \<times> env \<Rightarrow> error option result \<times> meta \<times> env" where
  "SyncComponentWithDB st =
     (let m = fst st; e = snd st in
      if components m = [] then (Returned None, m, e)
      else case Fetch m e of
        (Panic p, m1) \<Rightarrow> (Panic p, m1, e)
      | (Returned (Inl err), m1) \<Rightarrow> (Returned (Some (ErrFetch err)), m1, e)
      | (Returned (Inr dbResults), m1) \<Rightarrow>
          if dbResults = [] then (Returned None, m1, insert_all (components m1) e)
          else (case primary m1 of
            None \<Rightarrow> (Panic PanicNilPointer, m1, e)
          | Some p \<Rightarrow>
              (case add_missing (Type p) (components m1) dbResults e of
                 (Some stop, dbResults1, e1) \<Rightarrow> (stop, m1, e1)
               | (None, dbResults1, e1) \<Rightarrow>
                   (let e2 = remove_stale (name p) (components m1) (map fst dbResults1) e1;
                        m2 = m1\<lparr>components := rebuild dbResults1\<rparr>
                    in (Returned (fst (saveComponentToDisk m2 e2)), m2,
                        snd (saveComponentToDisk m2 e2))))))"

text \<open>\<^verbatim>\<open>fmt.Scanln(&input)\<close> into a fresh string variable.\<close>

definition Scanln :: "env \<Rightarrow> string \<times> env" where
  "Scanln e = (case scans e of [] \<Rightarrow> ([], e) | s # rest \<Rightarrow> (s, e\<lparr>scans := rest\<rparr>))"

text \<open>
  \<^verbatim>\<open>func (m *meta) refreshComponentFromDB()\<close>. It calls itself after an answer that is
  neither \<^verbatim>\<open>y\<close> nor \<^verbatim>\<open>n\<close>, so it need not return: \<open>None\<close> is a run that never ends. The
  error of \<^verbatim>\<open>SyncComponentWithDB\<close> and of the write are dropped, as in the source.
\<close>

partial_function (option) refreshComponentFromDB :: "meta \<times> env \<Rightarrow> (unit result \<times> meta \<times> env) option" where
  "refreshComponentFromDB st =
     (if \<not> fst (HasPrimaryKey (fst st)) then Some (Returned (), snd (HasPrimaryKey (fst st)), snd st)
      else case Fetch (snd (HasPrimaryKey (fst st))) (snd st) of
        (Panic p, m) \<Rightarrow> Some (Panic p, m, snd st)
      | (Returned (Inl err), m) \<Rightarrow> Some (Returned (), m, snd st)
      | (Returned (Inr results), m) \<Rightarrow>
          if rebuild results = [] \<and> components m \<noteq> [] then
            (let e1 = snd (Scanln ((snd st)\<lparr>prompts := Suc (prompts (snd st))\<rparr>));
                 input = fst (Scanln ((snd st)\<lparr>prompts := Suc (prompts (snd st))\<rparr>))
             in if input = ''y'' then
                  (case SyncComponentWithDB (m, e1) of
                     (Panic p, st1) \<Rightarrow> Some (Panic p, st1)
                   | (Returned err, st1) \<Rightarrow> Some (Returned (), st1))
                else if input = ''n'' then
                  Some (Returned (), m\<lparr>components := rebuild results\<rparr>,
                        snd (saveComponentToDisk (m\<lparr>components := rebuild results\<rparr>) e1))
                else refreshComponentFromDB (m, e1))
          else Some (Returned (), m\<lparr>components := rebuild results\<rparr>,
                     snd (saveComponentToDisk (m\<lparr>components := rebuild results\<rparr>) (snd st))))"

declare refreshComponentFromDB.simps [code]

text \<open>\<^verbatim>\<open>func (m *meta) UpdateComponent(id string, value component) error\<close>. The call
  \<^verbatim>\<open>Where(m.primary)\<close> reads the name of the primary field through its pointer.\<close>

definition UpdateComponent :: "string \<Rightarrow> component \<Rightarrow> meta \<times> env \<Rightarrow> error option result \<times> meta \<times> env" where
  "UpdateComponent ident val st =
     (let m = fst st; e = snd st in
      if map_of (components m) ident = None then (Returned (Some ErrNotFound), m, e)
      else
        let m1 = m\<lparr>components := AList.update ident val (components m)\<rparr>
        in case primary m1 of
             None \<Rightarrow> (Panic PanicNilPointer, m1, e)
           | Some p \<Rightarrow>
               (case UpdateSetWhereIs e val (name p) (VString ident) of
                  (Some err, e1) \<Rightarrow> (Returned (Some err), m1, e1)
                | (None, e1) \<Rightarrow>
                    (Returned None, m1\<lparr>components := AList.update ident val (components m1)\<rparr>, e1)))"

section \<open>Sample inputs\<close>

text \<open>Concrete fields, live columns and a table, on which the model is run below.\<close>

definition email_field :: Field where
  "email_field = \<lparr>name = ''email'', Type = FT_VarChar, Length = 100, Nullable = True,
     Definition = None, DefaultValue = [], AutoIncrement = False,
     index = \<lparr>PrimaryKey = False, Unique = False, Index = False, FullText = False, Spatial = False\<rparr>,
     table_name = ''users'', fk = None\<rparr>"

definition flag_field :: Field where
  "flag_field = \<lparr>name = ''active'', Type = FT_Bool, Length = 0, Nullable = False,
     Definition = None, DefaultValue = [], AutoIncrement = False,
     index = \<lparr>PrimaryKey = False, Unique = False, Index = False, FullText = False, Spatial = False\<rparr>,
     table_name = ''users'', fk = None\<rparr>"

definition live_column :: "string \<Rightarrow> string \<Rightarrow> string \<Rightarrow> string \<Rightarrow> bool \<Rightarrow> schema" where
  "live_column f ty nl ex pk = \<lparr>field = f, fieldType = ty, nullable = nl, key = [], extra = ex,
     defaultVal = \<lparr>String = [], Valid = False\<rparr>, isunique = False, isindex = False, isprimary = pk\<rparr>"

definition users_meta :: meta where
  "users_meta = \<lparr>components = [], TableName = ''users'', FieldTypes = [email_field, id_field 11],
     schemas = [live_column ''id'' ''int(10)'' ''NO'' ''auto_increment'' True,
                live_column ''legacy'' ''text'' ''YES'' [] False],
     primary = Some (id_field 11)\<rparr>"

definition accepting :: conn where
  "accepting = \<lparr>conn_ping_ok = True, rejects = (\<lambda>d. False)\<rparr>"

text \<open>A component table \<^verbatim>\<open>settings\<close> whose primary key is the column \<^verbatim>\<open>k\<close> of the
  type given, with a local component set; and a reachable server that holds the rows
  given, with an empty log, no JSON file yet, and the operator's coming answers.\<close>

definition key_field :: "fieldType \<Rightarrow> Field" where
  "key_field ty = \<lparr>name = ''k'', Type = ty, Length = 50, Nullable = False,
     Definition = None, DefaultValue = [], AutoIncrement = False,
     index = \<lparr>PrimaryKey = True, Unique = False, Index = False, FullText = False, Spatial = False\<rparr>,
     table_name = ''settings'', fk = None\<rparr>"

definition settings :: "fieldType \<Rightarrow> components \<Rightarrow> meta" where
  "settings ty cs = \<lparr>components = cs, TableName = ''settings'', FieldTypes = [key_field ty],
     schemas = [], primary = Some (key_field ty)\<rparr>"

definition server :: "Result list \<Rightarrow> string list \<Rightarrow> env" where
  "server rs answers = \<lparr>reachable = True, rows = rs, log = [], json_file = None, writable = True,
     scans = answers, prompts = 0\<rparr>"

text \<open>The rows of the scenarios: a row with key \<open>k\<close> and a value, as the JSON file holds
  it and as the driver returns it from a text column.\<close>

definition local_row :: "string \<Rightarrow> int \<Rightarrow> component" where
  "local_row k n = [(''k'', VString k), (''v'', VInt64 n)]"

definition stored_row :: "string \<Rightarrow> int \<Rightarrow> Result" where
  "stored_row k n = [(''k'', VBytes k), (''v'', VInt64 n)]"


section \<open>Theorems\<close>

text \<open>
  C10. For every Results value, the exported method IsEmpty returns true exactly when the
  receiver is not nil and holds at least one row; so, despite its name, it is true on a
  non-empty result set and false on an empty one.
\<close>

theorem IsEmpty_true_iff_has_row:
  "IsEmpty r = (\<exists>m. r = Some m \<and> (\<exists>k row. (k, row) \<in> set m))"
proof (cases r)
  case None
  then show ?thesis by (simp add: IsEmpty_def)
next
  case (Some m)
  have "(length m > 0) = (\<exists>k row. (k, row) \<in> set m)"
    by (cases m) auto
  with Some show ?thesis by (simp add: IsEmpty_def)
qed

theorem IsEmpty_true_iff_has_row_witness:
  "IsEmpty (Some [(VInt64 1, [(''id'', VInt64 1)])]) = True \<and> IsEmpty (Some []) = False \<and> IsEmpty None = False"
  using IsEmpty_true_iff_has_row [of "Some [(VInt64 1, [(''id'', VInt64 1)])]"]
    IsEmpty_true_iff_has_row [of "Some []"] IsEmpty_true_iff_has_row [of None]
  by auto

subsection \<open>Type mapper and Compare\<close>

lemma Compare_own_rendering:
  "Type f \<noteq> FT_Enum \<Longrightarrow>
   Compare L f (fieldType_string (Type f)) =
     (Type f \<in> set [FT_String, FT_VarChar, FT_Text, FT_Int, FT_Float, FT_Decimal, FT_Bool,
                     FT_TinyInt, FT_Date, FT_Time, FT_Timestamp, FT_JSON])"
  by (cases "Type f") (simp_all add: Compare_def split_head_def)

lemma enum_rendering_head: "split_head CHR ''('' (enum_rendering L f) = ''ENUM''"
  by (simp add: enum_rendering_def split_head_def)

lemma Compare_enum: "Type f = FT_Enum \<Longrightarrow> Compare L f s = (s = enum_rendering L f)"
proof (cases "s = enum_rendering L f")
  case True
  then show ?thesis by (simp add: Compare_def enum_rendering_head)
next
  case False
  assume "Type f = FT_Enum"
  with False show ?thesis by (simp add: Compare_def Let_def)
qed

text \<open>
  C2. For every declared field whose type is not Enum, Compare applied to the column-type
  string that the type mapper produces for that type should return true. The code does
  not: the mapper has no case for the types added later and renders them as TEXT, and it
  renders Binary as BLOB and UUID as CHAR(36), which Compare accepts only for Blob and for
  Char or String. The theorem evaluates the round trip at BigInt, Binary and UUID.
\<close>

theorem Compare_rejects_mapper_rendering:
  "fieldType_string FT_BigInt = ''TEXT'' \<and>
   Compare L (f\<lparr>Type := FT_BigInt\<rparr>) (fieldType_string FT_BigInt) = False \<and>
   Compare L (f\<lparr>Type := FT_Binary\<rparr>) (fieldType_string FT_Binary) = False \<and>
   Compare L (f\<lparr>Type := FT_UUID\<rparr>) (fieldType_string FT_UUID) = False \<and>
   Compare L (f\<lparr>Type := FT_BigInt\<rparr>) ''BIGINT'' = True"
  by (simp add: Compare_def split_head_def)

subsection \<open>Validator\<close>

lemma Validate_NoneD:
  "Validate L f = None \<Longrightarrow>
     name f \<noteq> [] \<and> isAlphaNumeric L (name f) \<and> unicode_IsLetter L (of_char (hd (name f))) \<and>
     strings_ToUpper L (name f) \<notin> set sqlKeywords \<and> check_length f = None \<and>
     \<not> (AutoIncrement f \<and> \<not> IsNumeric (Type f)) \<and> \<not> (PrimaryKey (index f) \<and> Nullable f) \<and>
     \<not> ((Unique (index f) \<or> Index (index f)) \<and> (Type f = FT_Text \<or> Type f = FT_Blob))"
  unfolding Validate_def by (simp split: if_splits)

lemma validate_field_NoneD:
  "validate_field L f = None \<Longrightarrow>
     Validate L f = None \<and> \<not> (Type f = FT_Enum \<and> Definition f = None) \<and>
     Definition f \<noteq> Some [] \<and> \<not> (PrimaryKey (index f) \<and> Unique (index f)) \<and>
     \<not> (PrimaryKey (index f) \<and> Nullable f)"
  unfolding validate_field_def by (simp split: if_splits)

lemma check_length_varchar: "Type f = FT_VarChar \<Longrightarrow> Length f = 0 \<Longrightarrow> check_length f \<noteq> None"
  by (simp add: check_length_def)

lemma listed_invariant_rejected:
  assumes "violates_listed_invariant f"
  shows "validate_field L f \<noteq> None"
proof
  assume ok: "validate_field L f = None"
  note a = validate_field_NoneD [OF ok]
  from a have b: "Validate L f = None" by simp
  note c = Validate_NoneD [OF b]
  from c check_length_varchar [of f] have "\<not> (Type f = FT_VarChar \<and> Length f = 0)" by blast
  with a c assms show False
    unfolding violates_listed_invariant_def by blast
qed

lemma id_like_field_accepted:
  assumes "AutoIncrement f" "\<not> Nullable f" "PrimaryKey (index f)" "\<not> Unique (index f)"
    and "Type f = FT_Int" "1 \<le> Length f" "DefaultValue f = []" "Definition f \<noteq> Some []"
    and "name f \<noteq> []" "isAlphaNumeric L (name f)" "unicode_IsLetter L (of_char (hd (name f)))"
    and "strings_ToUpper L (name f) \<notin> set sqlKeywords"
    and "strings_ToLower L ''INT'' = ''int''"
  shows "validate_field L f = None"
  using assms
  by (simp add: validate_field_def Validate_def check_length_def IsNumeric_def HasPrefix_def)

lemmas ascii_eval =
  ascii_lib_def ascii_lower_char_def ascii_upper_char_def ascii_is_letter_def ascii_is_digit_def
  isAlphaNumeric_def sqlKeywords_def HasPrefix_def IsNumeric_def

text \<open>
  C8, as the specification states it: Validate fails iff the field violates one of the
  listed invariants, and succeeds on any field that violates none of them, for example an
  auto-increment, non-nullable primary key of an integer type with a legal name. That
  example field with length 0 violates none of the listed invariants, and the validator
  rejects it: INT must have a positive length.
\<close>

theorem validate_field_not_iff_listed:
  "\<not> violates_listed_invariant (id_field 0) \<and>
   validate_field ascii_lib (id_field 0) = Some IntegerLengthNotPositive"
  by (simp add: violates_listed_invariant_def id_field_def validate_field_def Validate_def
      check_length_def ascii_eval)

text \<open>
  C8, amended. The validator rejects every field that violates one of the listed
  invariants. It accepts an auto-increment, non-nullable, non-unique primary key of type
  INT whose name passes the name checks, provided its length is at least 1, it has no
  default value and its literal list is not an allocated empty slice.
\<close>

theorem validate_field_listed_invariants:
  "(violates_listed_invariant f \<longrightarrow> validate_field L f \<noteq> None) \<and>
   (AutoIncrement f \<and> \<not> Nullable f \<and> PrimaryKey (index f) \<and> \<not> Unique (index f) \<and>
    Type f = FT_Int \<and> 1 \<le> Length f \<and> DefaultValue f = [] \<and> Definition f \<noteq> Some [] \<and>
    name f \<noteq> [] \<and> isAlphaNumeric L (name f) \<and> unicode_IsLetter L (of_char (hd (name f))) \<and>
    strings_ToUpper L (name f) \<notin> set sqlKeywords \<and> strings_ToLower L ''INT'' = ''int''
    \<longrightarrow> validate_field L f = None)"
  using listed_invariant_rejected [of f L] id_like_field_accepted [of f L] by blast

theorem validate_field_listed_invariants_witness:
  "validate_field ascii_lib (id_field 11) = None \<and>
   violates_listed_invariant ((id_field 11)\<lparr>Nullable := True\<rparr>) \<and>
   validate_field ascii_lib ((id_field 11)\<lparr>Nullable := True\<rparr>) \<noteq> None \<and>
   violates_listed_invariant ((id_field 0)\<lparr>Type := FT_VarChar\<rparr>) \<and>
   validate_field ascii_lib ((id_field 0)\<lparr>Type := FT_VarChar\<rparr>) \<noteq> None"
  using validate_field_listed_invariants [of "id_field 11" ascii_lib]
    validate_field_listed_invariants [of "(id_field 11)\<lparr>Nullable := True\<rparr>" ascii_lib]
    validate_field_listed_invariants [of "(id_field 0)\<lparr>Type := FT_VarChar\<rparr>" ascii_lib]
  by (simp add: violates_listed_invariant_def id_field_def ascii_eval)

subsection \<open>Schema introspection\<close>

lemma syncModelSchema_existing_table_clears:
  "syncModelSchema (cat\<lparr>ping_ok := True, table_count := Some 1, show_columns := Some [],
      database_name := Some n\<rparr>) m = (Completed, m\<lparr>schemas := []\<rparr>)"
  by (simp add: syncModelSchema_def)




subsection \<open>Schema reconciliation\<close>

text \<open>
  C4. For a declared field present in the live snapshot, a length-mismatch reason is
  recorded iff the live length differs from the declared length and it is not the case
  that the live length is 1 while the declared length is 0.
\<close>

theorem length_mismatch_iff:
  "(\<exists>a b. LengthMismatch a b \<in> set (drift_reasons L fld sc)) =
   (snd (parseSQLType L sc) \<noteq> Length fld \<and>
    \<not> (snd (parseSQLType L sc) = 1 \<and> Length fld = 0))"
  by (auto simp: drift_reasons_def Let_def)

lemma parse_tinyint_1:
  "parseSQLType ascii_lib (live_column ''active'' ''tinyint(1)'' ''NO'' [] False) = (''TINYINT'', 1)"
  by code_simp

lemma parse_int_10:
  "parseSQLType ascii_lib (live_column ''id'' ''int(10)'' ''NO'' ''auto_increment'' True) = (''INT'', 10)"
  by code_simp

theorem length_mismatch_iff_witness:
  "(\<exists>a b. LengthMismatch a b \<in> set (drift_reasons ascii_lib flag_field
       (live_column ''active'' ''tinyint(1)'' ''NO'' [] False))) = False \<and>
   (\<exists>a b. LengthMismatch a b \<in> set (drift_reasons ascii_lib (id_field 11)
       (live_column ''id'' ''int(10)'' ''NO'' ''auto_increment'' True))) = True"
  using length_mismatch_iff [of ascii_lib flag_field "live_column ''active'' ''tinyint(1)'' ''NO'' [] False"]
    length_mismatch_iff [of ascii_lib "id_field 11" "live_column ''id'' ''int(10)'' ''NO'' ''auto_increment'' True"]
  by (simp add: parse_tinyint_1 parse_int_10 flag_field_def id_field_def)

lemma sync_existing_no_add:
  "list_all (\<lambda>d. \<not> is_AddColumn d) (fst (snd (sync_existing L c fld sc inp)))"
  by (simp add: sync_existing_def Let_def modifyDBField_def exec_or_panic_def
      syncUniqueIndex_def syncPrimaryKey_def syncIndex_def)

lemma syncFields_no_add:
  "list_all (\<lambda>d. \<not> is_AddColumn d) (fst (snd (syncFields L c sm flds inp pend)))"
proof (induction flds arbitrary: inp pend)
  case Nil
  show ?case by simp
next
  case (Cons fld rest)
  show ?case
  proof (cases "sm (name fld)")
    case None
    then show ?thesis using Cons.IH by simp
  next
    case (Some sc)
    obtain oc ds inp1 where se: "sync_existing L c fld sc inp = (oc, ds, inp1)"
      by (cases "sync_existing L c fld sc inp") auto
    have ds: "list_all (\<lambda>d. \<not> is_AddColumn d) ds"
      using sync_existing_no_add [of L c fld sc inp] se by simp
    show ?thesis
    proof (cases oc)
      case Panicked
      with Some se ds show ?thesis by simp
    next
      case Completed
      obtain oc2 ds2 inp2 pend2 where r: "syncFields L c sm rest inp1 pend = (oc2, ds2, inp2, pend2)"
        by (cases "syncFields L c sm rest inp1 pend") auto
      have "list_all (\<lambda>d. \<not> is_AddColumn d) ds2"
        using Cons.IH [of inp1 pend] r by simp
      with Some se ds Completed r show ?thesis by simp
    qed
  qed
qed

lemma removeStaleFields_no_add:
  "list_all (\<lambda>d. \<not> is_AddColumn d) (fst (snd (removeStaleFields L c flds scs inp)))"
proof (induction scs arbitrary: inp)
  case Nil
  show ?case by simp
next
  case (Cons sc rest)
  obtain oc ds where r: "removeDBField c (field sc) = (oc, ds)"
    by (cases "removeDBField c (field sc)") auto
  have ds: "list_all (\<lambda>d. \<not> is_AddColumn d) ds"
    using r by (auto simp: removeDBField_def exec_or_panic_def split: if_splits)
  obtain oc2 ds2 inp2 where r2: "removeStaleFields L c flds rest (snd (ReadString inp)) = (oc2, ds2, inp2)"
    by (cases "removeStaleFields L c flds rest (snd (ReadString inp))") auto
  have ds2: "list_all (\<lambda>d. \<not> is_AddColumn d) ds2"
    using Cons.IH [of "snd (ReadString inp)"] r2 by simp
  show ?case
    using Cons.IH [of inp] r ds r2 ds2 by (cases oc) simp_all
qed

lemma addPendingFields_only_add:
  "list_all is_AddColumn (snd (addPendingFields c pend))"
proof (induction pend)
  case Nil
  show ?case by simp
next
  case (Cons fld rest)
  obtain oc ds where r: "addField c fld = (oc, ds)" by (cases "addField c fld") auto
  have ds: "list_all is_AddColumn ds"
    using r by (auto simp: addField_def exec_or_panic_def split: if_splits)
  obtain oc2 ds2 where r2: "addPendingFields c rest = (oc2, ds2)" by (cases "addPendingFields c rest") auto
  with Cons.IH have "list_all is_AddColumn ds2" by simp
  with r ds r2 show ?case by (cases oc) simp_all
qed

text \<open>
  C5. In every pass of syncTableSchema, the statements sent to the database split into a
  first part without any add-column statement, which holds the modifications, the index
  synchronisations and the drops of the columns that exist, and a last part made of
  add-column statements only: no addition is executed before the other actions of the
  pass have been attempted. This holds for a pass that a panic cuts short as well. When
  an addition is executed at all, the loop over the declared fields and the loop over the
  live columns have both run to their end, the first part is what they sent, and the
  additions are those of the fields queued by the first loop.
\<close>

theorem syncTableSchema_adds_last:
  "\<exists>pre adds. fst (snd (syncTableSchema L c m inp)) = pre @ adds \<and>
      list_all (\<lambda>d. \<not> is_AddColumn d) pre \<and> list_all is_AddColumn adds \<and>
      (adds \<noteq> [] \<longrightarrow>
         (\<exists>ds1 inp1 pend ds2 inp2.
            syncFields L c (map_of (rev (map (\<lambda>s. (field s, s)) (schemas m)))) (FieldTypes m) inp [] =
              (Completed, ds1, inp1, pend) \<and>
            removeStaleFields L c (FieldTypes m) (schemas m) inp1 = (Completed, ds2, inp2) \<and>
            pre = ds1 @ ds2 \<and> adds = snd (addPendingFields c pend)))"
proof -
  let ?sm = "map_of (rev (map (\<lambda>s. (field s, s)) (schemas m)))"
  obtain oc1 ds1 inp1 pend where a: "syncFields L c ?sm (FieldTypes m) inp [] = (oc1, ds1, inp1, pend)"
    by (cases "syncFields L c ?sm (FieldTypes m) inp []") auto
  have n1: "list_all (\<lambda>d. \<not> is_AddColumn d) ds1"
    using syncFields_no_add [of L c ?sm "FieldTypes m" inp "[]"] a by simp
  obtain oc2 ds2 inp2 where b: "removeStaleFields L c (FieldTypes m) (schemas m) inp1 = (oc2, ds2, inp2)"
    by (cases "removeStaleFields L c (FieldTypes m) (schemas m) inp1") auto
  have n2: "list_all (\<lambda>d. \<not> is_AddColumn d) ds2"
    using removeStaleFields_no_add [of L c "FieldTypes m" "schemas m" inp1] b by simp
  obtain oc3 ds3 where d: "addPendingFields c pend = (oc3, ds3)"
    by (cases "addPendingFields c pend") auto
  have n3: "list_all is_AddColumn ds3"
    using addPendingFields_only_add [of c pend] d by simp
  show ?thesis
  proof (cases oc1)
    case Panicked
    with a have "fst (snd (syncTableSchema L c m inp)) = ds1 @ []"
      by (simp add: syncTableSchema_def)
    with n1 show ?thesis
      by (rule_tac x = ds1 in exI, rule_tac x = "[]" in exI) simp
  next
    case c1: Completed
    show ?thesis
    proof (cases oc2)
      case Panicked
      with a b c1 have "fst (snd (syncTableSchema L c m inp)) = (ds1 @ ds2) @ []"
        by (simp add: syncTableSchema_def)
      with n1 n2 show ?thesis
        by (rule_tac x = "ds1 @ ds2" in exI, rule_tac x = "[]" in exI) simp
    next
      case c2: Completed
      with a b c1 d have "fst (snd (syncTableSchema L c m inp)) = (ds1 @ ds2) @ ds3"
        by (simp add: syncTableSchema_def)
      with n1 n2 n3 a b c1 c2 d show ?thesis
        by (rule_tac x = "ds1 @ ds2" in exI, rule_tac x = ds3 in exI) simp
    qed
  qed
qed

lemma users_pass:
  "syncTableSchema ascii_lib accepting users_meta
     (''y'' @ [CHR 0x0A] @ ''y'' @ [CHR 0x0A] @ '' y '' @ [CHR 0x0A]) =
   (Completed, [ChangeColumn (id_field 11), DropColumn ''legacy'', AddColumn email_field], [])"
  by code_simp

text \<open>A pass on the sample table: the field \<^verbatim>\<open>email\<close> has no column and is visited
  first, yet its addition is the last statement, after the change of \<^verbatim>\<open>id\<close> and the
  drop of the stale column.\<close>

theorem syncTableSchema_adds_last_witness:
  "\<exists>pre adds. [ChangeColumn (id_field 11), DropColumn ''legacy'', AddColumn email_field] = pre @ adds \<and>
      list_all (\<lambda>d. \<not> is_AddColumn d) pre \<and> list_all is_AddColumn adds"
proof -
  from syncTableSchema_adds_last [of ascii_lib accepting users_meta
      "''y'' @ [CHR 0x0A] @ ''y'' @ [CHR 0x0A] @ '' y '' @ [CHR 0x0A]"]
  obtain pre adds where
    "fst (snd (syncTableSchema ascii_lib accepting users_meta
        (''y'' @ [CHR 0x0A] @ ''y'' @ [CHR 0x0A] @ '' y '' @ [CHR 0x0A]))) = pre @ adds"
    "list_all (\<lambda>d. \<not> is_AddColumn d) pre" "list_all is_AddColumn adds"
    by blast
  then show ?thesis
    by (simp only: users_pass fst_conv snd_conv) blast
qed

subsection \<open>Component cache\<close>

text \<open>
  C1. After SyncComponentWithDB completes on local keys a, b and database keys a, c, the
  missing key b has been inserted and the stale key c deleted, and the in-memory set and
  the JSON file should equal the database contents a, b. The code deletes the row of c
  but leaves c in the working set it rebuilds the local state from: the run below
  returns no error, sends the INSERT of b and the DELETE of c, leaves the rows a, b in
  the database, and leaves a, c, b in memory and in the file.
\<close>

theorem SyncComponentWithDB_keeps_deleted_key:
  "SyncComponentWithDB
     (settings FT_VarChar [(''a'', local_row ''a'' 1), (''b'', local_row ''b'' 2)],
      server [stored_row ''a'' 1, stored_row ''c'' 3] []) =
   (Returned None,
    settings FT_VarChar
      [(''a'', local_row ''a'' 1), (''c'', local_row ''c'' 3), (''b'', local_row ''b'' 2)],
    (server [stored_row ''a'' 1, local_row ''b'' 2] [])
      \<lparr>log := [Insert (local_row ''b'' 2), DeleteWhere ''k'' (VString ''c'')],
        json_file := Some [(''a'', local_row ''a'' 1), (''c'', local_row ''c'' 3),
                           (''b'', local_row ''b'' 2)]\<rparr>)"
  by code_simp

lemma InsertRow_ok:
  "reachable e \<Longrightarrow> v \<noteq> [] \<Longrightarrow>
   InsertRow e v = (None, e\<lparr>rows := rows e @ [v], log := log e @ [Insert v]\<rparr>)"
  by (simp add: InsertRow_def)

lemma add_missing_int_inserts:
  assumes "list_all (\<lambda>(k, v). snd (Atoi k) = None \<and> v \<noteq> []) comps" and "reachable e"
  shows "fst (add_missing FT_Int comps dbR e) = None \<and>
         reachable (snd (snd (add_missing FT_Int comps dbR e))) \<and>
         log (snd (snd (add_missing FT_Int comps dbR e))) =
           log e @ map Insert (map snd
             (filter (\<lambda>(k, v). map_of dbR (VInt64 (fst (Atoi k))) = None) comps))"
  using assms
proof (induction comps arbitrary: dbR e)
  case Nil
  then show ?case by simp
next
  case (Cons kv rest)
  obtain k v where kv: "kv = (k, v)" by (cases kv)
  from Cons.prems kv have ok: "snd (Atoi k) = None" "v \<noteq> []"
    and rest: "list_all (\<lambda>(k, v). snd (Atoi k) = None \<and> v \<noteq> []) rest" by simp_all
  show ?case
  proof (cases "map_of dbR (VInt64 (fst (Atoi k))) = None")
    case True
    let ?e1 = "e\<lparr>rows := rows e @ [v], log := log e @ [Insert v]\<rparr>"
    let ?d1 = "AList.update (VString k) v dbR"
    have same: "\<And>n. map_of ?d1 (VInt64 n) = map_of dbR (VInt64 n)"
      by (simp add: update_conv')
    have step: "add_missing FT_Int (kv # rest) dbR e = add_missing FT_Int rest ?d1 ?e1"
      using kv ok True Cons.prems(2) by (simp add: InsertRow_ok)
    have "reachable ?e1" using Cons.prems(2) by simp
    from Cons.IH [OF rest this, of ?d1] show ?thesis
      unfolding step using kv True by (simp add: same)
  next
    case False
    from False obtain y where y: "map_of dbR (VInt64 (fst (Atoi k))) = Some y" by auto
    have step: "add_missing FT_Int (kv # rest) dbR e = add_missing FT_Int rest dbR e"
      using kv ok y by simp
    from Cons.IH [OF rest Cons.prems(2), of dbR] show ?thesis
      unfolding step using kv False by simp
  qed
qed

lemma remove_stale_inserts:
  "filter is_Insert (log (remove_stale col comps ks e)) = filter is_Insert (log e)"
  by (induction ks arbitrary: e) (simp_all add: DeleteWhereIs_def)

lemma fold_update_not_Nil:
  "acc \<noteq> [] \<Longrightarrow> fold (\<lambda>r res. AList.update (g r) (h r) res) rs acc \<noteq> []"
  by (induction rs arbitrary: acc) simp_all

lemma collect_rows_not_Nil: "rs \<noteq> [] \<Longrightarrow> collect_rows pk rs \<noteq> []"
  unfolding collect_rows_def
  by (cases rs) (simp_all add: fold_update_not_Nil)

text \<open>
  C6. When the primary key of the table is integer-typed, a local string key and a key
  that the database returns as a 64-bit integer are the same record when the string
  parses to that integer: on a reachable, non-empty database, with local keys that all
  parse and local records that all have a column, the INSERT statements that
  SyncComponentWithDB sends are exactly those of the local records whose parsed key is
  not among the integer keys fetched. So the key "0" is not inserted when the database
  returns the key 0.
\<close>

theorem int_primary_key_coerced:
  assumes "primary m = Some p" and "Type p = FT_Int" and "reachable e" and "rows e \<noteq> []"
    and "list_all (\<lambda>(k, v). snd (Atoi k) = None \<and> v \<noteq> []) (components m)"
  shows "filter is_Insert (log (snd (snd (SyncComponentWithDB (m, e))))) =
         filter is_Insert (log e) @
         map Insert (map snd (filter (\<lambda>(k, v). map_of (collect_rows (name p) (rows e))
                                         (VInt64 (fst (Atoi k))) = None) (components m)))"
proof (cases "components m = []")
  case True
  then show ?thesis by (simp add: SyncComponentWithDB_def)
next
  case False
  let ?db = "collect_rows (name p) (rows e)"
  have f: "Fetch m e = (Returned (Inr ?db), m)"
    using assms by (simp add: Fetch_def HasPrimaryKey_def)
  have ne: "?db \<noteq> []" using assms(4) by (rule collect_rows_not_Nil)
  note am = add_missing_int_inserts [OF assms(5) assms(3), of ?db]
  obtain stop d1 e1 where r: "add_missing FT_Int (components m) ?db e = (stop, d1, e1)"
    by (cases "add_missing FT_Int (components m) ?db e") auto
  with am have stop: "stop = None"
    and l1: "log e1 = log e @ map Insert (map snd
               (filter (\<lambda>(k, v). map_of ?db (VInt64 (fst (Atoi k))) = None) (components m)))"
    by simp_all
  have "log (snd (snd (SyncComponentWithDB (m, e)))) =
        log (remove_stale (name p) (components m) (map fst d1) e1)"
    using False f ne assms(1,2) r stop
    by (simp add: SyncComponentWithDB_def Let_def saveComponentToDisk_def)
  then show ?thesis
    by (simp add: remove_stale_inserts l1)
qed

lemma Atoi_0: "Atoi ''0'' = (0, None)"
  by code_simp

text \<open>The scenario of the specification: the JSON key "0", the database key 0. No INSERT
  is sent.\<close>

theorem int_primary_key_coerced_witness:
  "filter is_Insert (log (snd (snd (SyncComponentWithDB
      (settings FT_Int [(''0'', [(''k'', VInt64 0), (''v'', VInt64 1)])],
       server [[(''k'', VInt64 0), (''v'', VInt64 7)]] []))))) = []"
proof -
  let ?m = "settings FT_Int [(''0'', [(''k'', VInt64 0), (''v'', VInt64 1)])]"
  let ?e = "server [[(''k'', VInt64 0), (''v'', VInt64 7)]] []"
  have h1: "primary ?m = Some (key_field FT_Int)" by (simp add: settings_def)
  have h2: "Type (key_field FT_Int) = FT_Int" by (simp add: key_field_def)
  have h3: "reachable ?e" by (simp add: server_def)
  have h4: "rows ?e \<noteq> []" by (simp add: server_def)
  have h5: "list_all (\<lambda>(k, v). snd (Atoi k) = None \<and> v \<noteq> []) (components ?m)"
    by (simp add: settings_def Atoi_0)
  from int_primary_key_coerced [OF h1 h2 h3 h4 h5] show ?thesis
    by (simp add: settings_def server_def key_field_def collect_rows_def column_def Atoi_0)
qed

lemma refresh_one_invalid_answer:
  assumes "primary m = Some p" "reachable e" "rows e = []" "components m \<noteq> []"
    and "a \<noteq> ''y''" "a \<noteq> ''n''"
  shows "refreshComponentFromDB (m, e\<lparr>scans := a # rest\<rparr>) =
         refreshComponentFromDB (m, e\<lparr>scans := rest, prompts := Suc (prompts e)\<rparr>)"
  apply (subst refreshComponentFromDB.simps)
  using assms
  apply (simp add: HasPrimaryKey_def Fetch_def rebuild_def Scanln_def)
  apply (cases e)
  apply simp
  done

lemma refresh_answer_n:
  assumes "primary m = Some p" "reachable e" "rows e = []" "components m \<noteq> []"
  shows "refreshComponentFromDB (m, e\<lparr>scans := ''n'' # rest\<rparr>) =
         Some (Returned (), m\<lparr>components := []\<rparr>,
               snd (saveComponentToDisk (m\<lparr>components := []\<rparr>)
                      (e\<lparr>scans := rest, prompts := Suc (prompts e)\<rparr>)))"
  apply (subst refreshComponentFromDB.simps)
  using assms
  apply (simp add: HasPrimaryKey_def Fetch_def rebuild_def Scanln_def)
  apply (cases e)
  apply simp
  done

lemma refresh_invalid_answers:
  assumes "primary m = Some p" "reachable e" "rows e = []" "components m \<noteq> []"
    and "list_all (\<lambda>a. a \<noteq> ''y'' \<and> a \<noteq> ''n'') bad"
  shows "refreshComponentFromDB (m, e\<lparr>scans := bad @ rest\<rparr>) =
         refreshComponentFromDB (m, e\<lparr>scans := rest, prompts := prompts e + length bad\<rparr>)"
  using assms
proof (induction bad arbitrary: e)
  case Nil
  then show ?case by simp
next
  case (Cons a bad)
  let ?e1 = "e\<lparr>prompts := Suc (prompts e)\<rparr>"
  have "refreshComponentFromDB (m, e\<lparr>scans := (a # bad) @ rest\<rparr>) =
        refreshComponentFromDB (m, e\<lparr>scans := bad @ rest, prompts := Suc (prompts e)\<rparr>)"
    using refresh_one_invalid_answer [of m p e a "bad @ rest"] Cons.prems by simp
  also have "\<dots> = refreshComponentFromDB (m, ?e1\<lparr>scans := bad @ rest\<rparr>)"
    by (cases e) simp
  also have "\<dots> = refreshComponentFromDB (m, ?e1\<lparr>scans := rest, prompts := prompts ?e1 + length bad\<rparr>)"
    using Cons.IH [of ?e1] Cons.prems by simp
  finally show ?case by (cases e) simp
qed

text \<open>
  C7. In refreshComponentFromDB, when the database is empty and the local set is not, an
  answer other than exactly "y" or exactly "n" changes nothing but the console: the
  function starts over in the same conflict, one prompt later, whatever the answers that
  follow; and when the answers that follow the invalid ones start with "n", the run
  returns after one prompt for each invalid answer and one more, in the state that the
  answer "n" alone leads to.
\<close>

theorem refresh_reprompts_on_invalid_answer:
  assumes "primary m = Some p" "reachable e" "rows e = []" "components m \<noteq> []"
    and "list_all (\<lambda>a. a \<noteq> ''y'' \<and> a \<noteq> ''n'') bad"
  shows "refreshComponentFromDB (m, e\<lparr>scans := bad @ rest\<rparr>) =
           refreshComponentFromDB (m, e\<lparr>scans := rest, prompts := prompts e + length bad\<rparr>) \<and>
         refreshComponentFromDB (m, e\<lparr>scans := bad @ ''n'' # rest\<rparr>) =
           Some (Returned (), m\<lparr>components := []\<rparr>,
                 snd (saveComponentToDisk (m\<lparr>components := []\<rparr>)
                        (e\<lparr>scans := rest, prompts := Suc (prompts e + length bad)\<rparr>)))"
proof
  show "refreshComponentFromDB (m, e\<lparr>scans := bad @ rest\<rparr>) =
        refreshComponentFromDB (m, e\<lparr>scans := rest, prompts := prompts e + length bad\<rparr>)"
    using assms by (rule refresh_invalid_answers)
next
  let ?e1 = "e\<lparr>prompts := prompts e + length bad\<rparr>"
  have "refreshComponentFromDB (m, e\<lparr>scans := bad @ ''n'' # rest\<rparr>) =
        refreshComponentFromDB (m, e\<lparr>scans := ''n'' # rest, prompts := prompts e + length bad\<rparr>)"
    using assms by (rule refresh_invalid_answers)
  also have "\<dots> = refreshComponentFromDB (m, ?e1\<lparr>scans := ''n'' # rest\<rparr>)"
    by (cases e) simp
  also have "\<dots> = Some (Returned (), m\<lparr>components := []\<rparr>,
               snd (saveComponentToDisk (m\<lparr>components := []\<rparr>)
                      (?e1\<lparr>scans := rest, prompts := Suc (prompts ?e1)\<rparr>)))"
    using refresh_answer_n [of m p ?e1 rest] assms by simp
  finally show "refreshComponentFromDB (m, e\<lparr>scans := bad @ ''n'' # rest\<rparr>) =
      Some (Returned (), m\<lparr>components := []\<rparr>,
            snd (saveComponentToDisk (m\<lparr>components := []\<rparr>)
                   (e\<lparr>scans := rest, prompts := Suc (prompts e + length bad)\<rparr>)))"
    by (cases e) simp
qed

text \<open>The operator answers "maybe", then "Y", then "n": three prompts, and only then
  is the local set replaced by the empty one.\<close>

theorem refresh_reprompts_on_invalid_answer_witness:
  "refreshComponentFromDB
     (settings FT_Int [(''0'', local_row ''0'' 1)], server [] [''maybe'', ''Y'', ''n'']) =
   Some (Returned (), settings FT_Int [], (server [] [])\<lparr>json_file := Some [], prompts := 3\<rparr>)"
proof -
  let ?m = "settings FT_Int [(''0'', local_row ''0'' 1)]"
  let ?e = "server [] []"
  have h1: "primary ?m = Some (key_field FT_Int)" by (simp add: settings_def)
  have h2: "reachable ?e" by (simp add: server_def)
  have h3: "rows ?e = []" by (simp add: server_def)
  have h4: "components ?m \<noteq> []" by (simp add: settings_def)
  have h5: "list_all (\<lambda>a. a \<noteq> ''y'' \<and> a \<noteq> ''n'') [''maybe'', ''Y'']" by simp
  from refresh_reprompts_on_invalid_answer [OF h1 h2 h3 h4 h5, of "[]"] show ?thesis
    by (simp add: settings_def server_def saveComponentToDisk_def)
qed

text \<open>
  C9, as the specification states it: with an id that is present, UpdateComponent applies
  the new value to the in-memory map and issues an UPDATE statement. With a value that
  has no column it changes the in-memory map and returns an error, and no statement
  reaches the database.
\<close>

theorem UpdateComponent_empty_value_no_statement:
  "map_of (components (settings FT_VarChar [(''a'', local_row ''a'' 1)])) ''a'' =
     Some (local_row ''a'' 1) \<and>
   fst (UpdateComponent ''a'' []
     (settings FT_VarChar [(''a'', local_row ''a'' 1)], server [stored_row ''a'' 1] [])) =
     Returned (Some ErrNoFieldsToUpdate) \<and>
   log (snd (snd (UpdateComponent ''a'' []
     (settings FT_VarChar [(''a'', local_row ''a'' 1)], server [stored_row ''a'' 1] [])))) = [] \<and>
   components (fst (snd (UpdateComponent ''a'' []
     (settings FT_VarChar [(''a'', local_row ''a'' 1)], server [stored_row ''a'' 1] [])))) =
     [(''a'', [])]"
  by code_simp

text \<open>
  C9, amended. UpdateComponent called with an id absent from the in-memory set fails with
  the not-found error and changes nothing. When the id is present (and the table has its
  primary field), it stores the new value in the in-memory map; when moreover the
  database is reachable and the value has at least one column, it returns no error and
  sends one UPDATE statement, with one SET clause for each column of the value, keyed by
  the primary-key column equal to the id; when the value has no column it returns an
  error and sends nothing.
\<close>

theorem UpdateComponent_not_found_or_update:
  "(map_of (components m) ident = None \<longrightarrow>
      UpdateComponent ident val (m, e) = (Returned (Some ErrNotFound), m, e)) \<and>
   (map_of (components m) ident \<noteq> None \<and> primary m = Some p \<longrightarrow>
      components (fst (snd (UpdateComponent ident val (m, e)))) =
        AList.update ident val (components m)) \<and>
   (map_of (components m) ident \<noteq> None \<and> primary m = Some p \<and> reachable e \<and> val \<noteq> [] \<longrightarrow>
      fst (UpdateComponent ident val (m, e)) = Returned None \<and>
      log (snd (snd (UpdateComponent ident val (m, e)))) =
        log e @ [UpdateWhere val (name p) (VString ident)]) \<and>
   (map_of (components m) ident \<noteq> None \<and> primary m = Some p \<and> reachable e \<and> val = [] \<longrightarrow>
      fst (UpdateComponent ident val (m, e)) = Returned (Some ErrNoFieldsToUpdate) \<and>
      log (snd (snd (UpdateComponent ident val (m, e)))) = log e)"
  by (auto simp add: UpdateComponent_def UpdateSetWhereIs_def Let_def)

theorem UpdateComponent_not_found_or_update_witness:
  "UpdateComponent ''z'' [(''v'', VInt64 5)]
     (settings FT_VarChar [(''a'', local_row ''a'' 1)], server [stored_row ''a'' 1] []) =
   (Returned (Some ErrNotFound), settings FT_VarChar [(''a'', local_row ''a'' 1)],
    server [stored_row ''a'' 1] []) \<and>
   components (fst (snd (UpdateComponent ''a'' [(''v'', VInt64 5)]
     (settings FT_VarChar [(''a'', local_row ''a'' 1)], server [stored_row ''a'' 1] [])))) =
   [(''a'', [(''v'', VInt64 5)])] \<and>
   log (snd (snd (UpdateComponent ''a'' [(''v'', VInt64 5)]
     (settings FT_VarChar [(''a'', local_row ''a'' 1)], server [stored_row ''a'' 1] [])))) =
   [UpdateWhere [(''v'', VInt64 5)] ''k'' (VString ''a'')]"
  using UpdateComponent_not_found_or_update
      [of "settings FT_VarChar [(''a'', local_row ''a'' 1)]" "''z''" "[(''v'', VInt64 5)]"
          "server [stored_row ''a'' 1] []" "key_field FT_VarChar"]
    UpdateComponent_not_found_or_update
      [of "settings FT_VarChar [(''a'', local_row ''a'' 1)]" "''a''" "[(''v'', VInt64 5)]"
          "server [stored_row ''a'' 1] []" "key_field FT_VarChar"]
  by (simp add: settings_def server_def key_field_def)

end
